theory Spec2Isabelle
  imports Main
begin

section \<open>The MedTechService resource ID: formatter and parser\<close>

text \<open>
  The struct \<open>MedTechServiceId\<close>, as the test file of package \<open>parse\<close> builds it
  (\<open>&MedTechServiceId{SubscriptionId: ..., ResourceGroup: ..., WorkspaceName: ...,
  IotconnectorName: ...}\<close>): four string fields.
\<close>

record MedTechServiceId =
  SubscriptionId :: string
  ResourceGroup :: string
  WorkspaceName :: string
  IotconnectorName :: string

text \<open>
  Modelled from the spec: the constructor \<open>NewMedTechServiceID\<close> is not part of the
  sources at hand (only its test is). The test calls it with the four values in the order
  subscriptionId, resourceGroup, workspaceName, iotconnectorName; it stores each argument
  in the field of the same name.
\<close>

definition NewMedTechServiceID :: "string \<Rightarrow> string \<Rightarrow> string \<Rightarrow> string \<Rightarrow> MedTechServiceId" where
  "NewMedTechServiceID subscriptionId resourceGroup workspaceName iotconnectorName =
     \<lparr> SubscriptionId = subscriptionId, ResourceGroup = resourceGroup,
       WorkspaceName = workspaceName, IotconnectorName = iotconnectorName \<rparr>"

text \<open>
  Modelled from the spec: the method \<open>ID()\<close> is not part of the sources at hand. The spec
  calls it the formatter of a fixed URI template; the template is the one the test expects,
  \<open>/subscriptions/%s/resourceGroups/%s/providers/Microsoft.HealthcareApis/workspaces/%s/iotconnectors/%s\<close>,
  with the four fields substituted in order.
\<close>

definition ID :: "MedTechServiceId \<Rightarrow> string" where
  "ID v = ''/subscriptions/'' @ SubscriptionId v @ ''/resourceGroups/'' @ ResourceGroup v
        @ ''/providers/Microsoft.HealthcareApis/workspaces/'' @ WorkspaceName v
        @ ''/iotconnectors/'' @ IotconnectorName v"

text \<open>
  Splitting a path at a separator, as Go's \<open>strings.Split\<close> does: the result is never
  empty, and an empty piece stands between two adjacent separators and after a trailing one.
\<close>

fun split_on :: "char \<Rightarrow> string \<Rightarrow> string list" where
  "split_on c [] = [[]]"
| "split_on c (x # xs) =
     (if x = c then [] # split_on c xs
      else (case split_on c xs of
              [] \<Rightarrow> [[x]]
            | y # ys \<Rightarrow> (x # y) # ys))"

text \<open>
  A segment of the URI template is either a literal key, compared as it is written, or a
  place for a value supplied by the user.
\<close>

datatype segment = Static string | UserSpecified

definition template :: "segment list" where
  "template =
     [Static ''subscriptions'', UserSpecified,
      Static ''resourceGroups'', UserSpecified,
      Static ''providers'', Static ''Microsoft.HealthcareApis'',
      Static ''workspaces'', UserSpecified,
      Static ''iotconnectors'', UserSpecified]"

text \<open>
  Matching the segments of the input against the template, one by one: a literal must be
  equal to the key character by character (so a different case is a different segment), a
  value must be present and not empty, and both lists must end together. The result is the
  list of the values, in the order of the template.
\<close>

fun match_segments :: "segment list \<Rightarrow> string list \<Rightarrow> string list option" where
  "match_segments [] [] = Some []"
| "match_segments (Static k # ts) (s # ss) =
     (if s = k then match_segments ts ss else None)"
| "match_segments (UserSpecified # ts) (s # ss) =
     (if s = [] then None else map_option ((#) s) (match_segments ts ss))"
| "match_segments [] (s # ss) = None"
| "match_segments (t # ts) [] = None"

datatype id_error = NotAMedTechServiceID string

text \<open>
  Modelled from the spec: the parser \<open>MedTechServiceID\<close> is not part of the sources at
  hand. The spec describes it as a string-template matcher, "segment-by-segment path
  matching with case-sensitive literal comparison", which parses the fixed URI template and
  rejects malformed or wrongly-cased input. The input must start with the separator (the
  piece before the first \<open>/\<close> is empty) and the pieces after it must match the template.
\<close>

definition MedTechServiceID :: "string \<Rightarrow> id_error + MedTechServiceId" where
  "MedTechServiceID input =
     (case split_on CHR ''/'' input of
        [] \<Rightarrow> Inl (NotAMedTechServiceID input)
      | first # segs \<Rightarrow>
          if first \<noteq> [] then Inl (NotAMedTechServiceID input)
          else (case match_segments template segs of
                  Some [s, g, w, i] \<Rightarrow> Inr (NewMedTechServiceID s g w i)
                | _ \<Rightarrow> Inl (NotAMedTechServiceID input)))"

section \<open>The App Service connection resource\<close>

subsection \<open>Data\<close>

text \<open>
  The typed configuration of the resource, \<open>AppServiceConnectorResourceModel\<close>. The
  element type of \<open>AuthInfo\<close>, the struct \<open>AuthInfoModel\<close>, is declared in another file
  of the package; it is the type parameter \<open>'a\<close>.
\<close>

record 'a AppServiceConnectorResourceModel =
  Name :: string
  AppServiceId :: string
  TargetResourceId :: string
  ClientType :: string
  AuthInfo :: "'a list"
  VnetSolution :: string

text \<open>
  The scoped linker ID of the SDK (packages \<open>servicelinker\<close> and \<open>links\<close> declare the
  same struct): the code reads its fields \<open>ResourceUri\<close> and \<open>LinkerName\<close>, and builds
  it with \<open>NewScopedLinkerID(resourceUri, linkerName)\<close>.
\<close>

record ScopedLinkerId =
  ResourceUri :: string
  LinkerName :: string

definition NewScopedLinkerID :: "string \<Rightarrow> string \<Rightarrow> ScopedLinkerId" where
  "NewScopedLinkerID resourceUri linkerName =
     \<lparr> ResourceUri = resourceUri, LinkerName = linkerName \<rparr>"

text \<open>
  The request and response objects of the SDK, with the fields the resource touches. A Go
  pointer or interface field is an \<open>option\<close> (\<open>None\<close> for nil).

  \<open>AuthInfoBase\<close> is an interface without methods, so a field of that type holds whatever
  value the code assigns: an authentication object of the SDK (type parameter \<open>'b\<close>) or,
  as \<open>Update\<close> does, the slice of \<open>AuthInfoModel\<close> of the configuration.
  \<open>TargetServiceBase\<close> is an interface too; the code builds the implementation
  \<open>AzureResource{Id: ...}\<close>, and a response may carry another one (type parameter \<open>'t\<close>).
\<close>

datatype ('a, 'b) AuthInfoBase = SdkAuthInfo 'b | AuthInfoModels "'a list"

datatype 't TargetServiceBase = AzureResource "string option" | OtherTargetService 't

record VNetSolution =
  vnet_Type :: "string option"

record ('a, 'b, 't) LinkerProperties =
  props_AuthInfo :: "('a, 'b) AuthInfoBase option"
  props_ClientType :: "string option"
  props_TargetService :: "'t TargetServiceBase option"
  props_VNetSolution :: "VNetSolution option"

record ('a, 'b, 't) LinkerResource =
  res_Id :: "string option"
  res_Name :: "string option"
  res_Properties :: "('a, 'b, 't) LinkerProperties"

record ('a, 'b, 't) LinkerPatch =
  patch_Properties :: "('a, 'b, 't) LinkerProperties option"

record 'h OperationResponse =
  HttpResponse :: 'h

record ('a, 'b, 't, 'h) LinkerGetOperationResponse = "'h OperationResponse" +
  Model :: "('a, 'b, 't) LinkerResource option"

text \<open>
  What a resource function returns: an error of a callee passed on as it is
  (\<open>return err\<close>), an error wrapped by \<open>fmt.Errorf\<close> (the format, the ID printed by
  \<open>%s\<close> when there is one, and the wrapped error), or the error of
  \<open>metadata.ResourceRequiresImport\<close>. The errors of the callees have type \<open>'e\<close>.
\<close>

datatype 'e resource_error =
    Returned 'e
  | Errorf string "ScopedLinkerId option" 'e
  | ResourceRequiresImport string ScopedLinkerId

text \<open>
  What a resource function does, in order: its calls of the remote API clients and of the
  methods of \<open>metadata\<close> that change the Terraform state or write to the log.
\<close>

datatype ('a, 'b, 't) event =
    LinkerGet ScopedLinkerId
  | LinkerCreateOrUpdate ScopedLinkerId "('a, 'b, 't) LinkerResource"
  | LinkerDelete ScopedLinkerId
  | LinkerUpdate ScopedLinkerId "('a, 'b, 't) LinkerPatch"
  | SetID ScopedLinkerId
  | MarkAsGone ScopedLinkerId
  | Encode "'a AppServiceConnectorResourceModel"
  | LoggerInfof string ScopedLinkerId

text \<open>
  Everything the resource functions call and do not define themselves: the methods of
  \<open>metadata\<close> (plugin framework), the clients and the ID functions of the SDK, the
  helper \<open>response.WasNotFound\<close>, and the expand and flatten helpers, which live in
  another file of the package. A Go function returning \<open>(value, error)\<close> is a pair with an
  optional error, since the code reads the value also when the error is set; one whose value
  the code reads only without an error is a sum. The type \<open>'h\<close> is \<open>*http.Response\<close>.
\<close>

record ('a, 'b, 't, 'h, 'e) environment =
  Decode :: "'e + 'a AppServiceConnectorResourceModel"
  ResourceData_Id :: string
  HasChange :: "string \<Rightarrow> bool"
  MarkAsGone_result :: "ScopedLinkerId \<Rightarrow> 'e option"
  Encode_result :: "'a AppServiceConnectorResourceModel \<Rightarrow> 'e option"
  scoped_ID :: "ScopedLinkerId \<Rightarrow> string"
  servicelinker_ParseScopedLinkerID :: "string \<Rightarrow> 'e + ScopedLinkerId"
  links_ParseScopedLinkerID :: "string \<Rightarrow> 'e + ScopedLinkerId"
  client_LinkerGet ::
    "ScopedLinkerId \<Rightarrow> ('a, 'b, 't, 'h) LinkerGetOperationResponse \<times> 'e option"
  client_LinkerCreateOrUpdate ::
    "ScopedLinkerId \<Rightarrow> ('a, 'b, 't) LinkerResource \<Rightarrow> 'e option"
  client_LinkerDelete :: "ScopedLinkerId \<Rightarrow> 'h OperationResponse \<times> 'e option"
  client_LinkerUpdate :: "ScopedLinkerId \<Rightarrow> ('a, 'b, 't) LinkerPatch \<Rightarrow> 'e option"
  WasNotFound :: "'h \<Rightarrow> bool"
  expandServiceConnectorAuthInfo :: "'a list \<Rightarrow> ('a, 'b) AuthInfoBase option \<times> 'e option"
  flattenTargetService :: "'t TargetServiceBase option \<Rightarrow> string"
  flattenServiceConnectorAuthInfo :: "('a, 'b) AuthInfoBase option \<Rightarrow> 'a list"

type_synonym ('a, 'b, 't, 'e) outcome =
  "('a, 'b, 't) event list \<times> 'e resource_error option"

subsection \<open>The resource functions\<close>

definition ResourceType :: string where
  "ResourceType = ''azurerm_app_service_connection''"

definition Create :: "('a, 'b, 't, 'h, 'e) environment \<Rightarrow> ('a, 'b, 't, 'e) outcome" where
  "Create env =
     (case Decode env of
        Inl err \<Rightarrow> ([], Some (Returned err))
      | Inr model \<Rightarrow>
          let id' = NewScopedLinkerID (AppServiceId model) (Name model);
              (existing, err) = client_LinkerGet env id'
          in
          if err \<noteq> None \<and> \<not> WasNotFound env (HttpResponse existing) then
            ([LinkerGet id'],
             Some (Errorf ''checking for presence of existing %s: %+v'' (Some id') (the err)))
          else if \<not> WasNotFound env (HttpResponse existing) then
            ([LinkerGet id'], Some (ResourceRequiresImport ResourceType id'))
          else
            (case expandServiceConnectorAuthInfo env (AuthInfo model) of
               (authInfo, Some err) \<Rightarrow>
                 ([LinkerGet id'], Some (Errorf ''expanding `authentication`: %+v'' None err))
             | (authInfo, None) \<Rightarrow>
                 let serviceConnectorProperties =
                       \<lparr> props_AuthInfo = authInfo,
                         props_ClientType = None,
                         props_TargetService = Some (AzureResource (Some (TargetResourceId model))),
                         props_VNetSolution = None \<rparr>;
                     serviceConnectorProperties =
                       (if ClientType model \<noteq> [] then
                          serviceConnectorProperties\<lparr>props_ClientType := Some (ClientType model)\<rparr>
                        else serviceConnectorProperties);
                     serviceConnectorProperties =
                       (if VnetSolution model \<noteq> [] then
                          serviceConnectorProperties
                            \<lparr>props_VNetSolution := Some \<lparr> vnet_Type = Some (VnetSolution model) \<rparr>\<rparr>
                        else serviceConnectorProperties);
                     props =
                       \<lparr> res_Id = Some (scoped_ID env id'),
                         res_Name = Some (Name model),
                         res_Properties = serviceConnectorProperties \<rparr>
                 in
                 (case client_LinkerCreateOrUpdate env id' props of
                    Some err \<Rightarrow>
                      ([LinkerGet id', LinkerCreateOrUpdate id' props],
                       Some (Errorf ''creating %s: %+v'' (Some id') err))
                  | None \<Rightarrow>
                      ([LinkerGet id', LinkerCreateOrUpdate id' props, SetID id'], None))))"

definition Read :: "('a, 'b, 't, 'h, 'e) environment \<Rightarrow> ('a, 'b, 't, 'e) outcome" where
  "Read env =
     (case servicelinker_ParseScopedLinkerID env (ResourceData_Id env) of
        Inl err \<Rightarrow> ([], Some (Returned err))
      | Inr id' \<Rightarrow>
          let (resp, err) = client_LinkerGet env id' in
          if err \<noteq> None then
            (if WasNotFound env (HttpResponse resp) then
               ([LinkerGet id', MarkAsGone id'], map_option Returned (MarkAsGone_result env id'))
             else
               ([LinkerGet id'], Some (Errorf ''reading %s: %+v'' (Some id') (the err))))
          else
            (case Model resp of
               None \<Rightarrow> ([LinkerGet id'], None)
             | Some model \<Rightarrow>
                 let props = res_Properties model in
                 if props_AuthInfo props = None \<or> props_TargetService props = None then
                   ([LinkerGet id'], None)
                 else
                   let state =
                         \<lparr> Name = LinkerName id',
                           AppServiceId = ResourceUri id',
                           TargetResourceId = flattenTargetService env (props_TargetService props),
                           ClientType = [],
                           AuthInfo = flattenServiceConnectorAuthInfo env (props_AuthInfo props),
                           VnetSolution = [] \<rparr>;
                       state =
                         (case props_ClientType props of
                            Some clientType \<Rightarrow> state\<lparr>ClientType := clientType\<rparr>
                          | None \<Rightarrow> state);
                       state =
                         (case props_VNetSolution props of
                            Some vNetSolution \<Rightarrow>
                              (case vnet_Type vNetSolution of
                                 Some vNetSolutionType \<Rightarrow> state\<lparr>VnetSolution := vNetSolutionType\<rparr>
                               | None \<Rightarrow> state)
                          | None \<Rightarrow> state)
                   in ([LinkerGet id', Encode state], map_option Returned (Encode_result env state))))"

definition Delete :: "('a, 'b, 't, 'h, 'e) environment \<Rightarrow> ('a, 'b, 't, 'e) outcome" where
  "Delete env =
     (case links_ParseScopedLinkerID env (ResourceData_Id env) of
        Inl err \<Rightarrow> ([], Some (Returned err))
      | Inr id' \<Rightarrow>
          let (resp, err) = client_LinkerDelete env id' in
          if err \<noteq> None then
            (if \<not> WasNotFound env (HttpResponse resp) then
               ([LoggerInfof ''deleting %s'' id', LinkerDelete id'],
                Some (Errorf ''deleting %s: %+v'' (Some id') (the err)))
             else ([LoggerInfof ''deleting %s'' id', LinkerDelete id'], None))
          else ([LoggerInfof ''deleting %s'' id', LinkerDelete id'], None))"

definition Update :: "('a, 'b, 't, 'h, 'e) environment \<Rightarrow> ('a, 'b, 't, 'e) outcome" where
  "Update env =
     (case links_ParseScopedLinkerID env (ResourceData_Id env) of
        Inl err \<Rightarrow> ([], Some (Returned err))
      | Inr id' \<Rightarrow>
          (case Decode env of
             Inl err \<Rightarrow> ([], Some (Errorf ''decoding %+v'' None err))
           | Inr state \<Rightarrow>
               let linkerProps =
                     \<lparr> props_AuthInfo = None, props_ClientType = None,
                       props_TargetService = None, props_VNetSolution = None \<rparr>;
                   linkerProps =
                     (if HasChange env ''client_type'' then
                        linkerProps\<lparr>props_ClientType := Some (ClientType state)\<rparr>
                      else linkerProps);
                   linkerProps =
                     (if HasChange env ''vnet_solution'' then
                        linkerProps
                          \<lparr>props_VNetSolution := Some \<lparr> vnet_Type = Some (VnetSolution state) \<rparr>\<rparr>
                      else linkerProps);
                   linkerProps =
                     (if HasChange env ''authentication'' then
                        linkerProps\<lparr>props_AuthInfo := Some (AuthInfoModels (AuthInfo state))\<rparr>
                      else linkerProps);
                   props = \<lparr> patch_Properties = Some linkerProps \<rparr>
               in
               (case client_LinkerUpdate env id' props of
                  Some err \<Rightarrow>
                    ([LinkerUpdate id' props], Some (Errorf ''updating %s: %+v'' (Some id') err))
                | None \<Rightarrow> ([LinkerUpdate id' props], None))))"

subsection \<open>The schema\<close>

text \<open>
  A schema of the plugin SDK, with the fields that \<open>Arguments\<close> sets; a field that a
  struct literal leaves out has Go's zero value (\<open>False\<close>, or \<open>None\<close> for nil). A
  validation function is applied to the configured string and answers whether it reports no
  error.
\<close>

datatype ValueType = TypeBool | TypeInt | TypeFloat | TypeString | TypeList | TypeMap | TypeSet

record Schema =
  schema_Type :: ValueType
  Required :: bool
  Optional :: bool
  ForceNew :: bool
  Default :: "string option"
  ValidateFunc :: "(string \<Rightarrow> bool) option"

text \<open>
  Modelled from the spec: the string constants of the SDK package \<open>servicelinker\<close> are
  not part of the sources at hand. Their values are the ten client types and the two VNet
  solution types that the specification of the schema lists.
\<close>

definition ClientTypeNone :: string where "ClientTypeNone = ''none''"
definition ClientTypeDotnet :: string where "ClientTypeDotnet = ''dotnet''"
definition ClientTypeJava :: string where "ClientTypeJava = ''java''"
definition ClientTypePython :: string where "ClientTypePython = ''python''"
definition ClientTypeGo :: string where "ClientTypeGo = ''go''"
definition ClientTypePhp :: string where "ClientTypePhp = ''php''"
definition ClientTypeRuby :: string where "ClientTypeRuby = ''ruby''"
definition ClientTypeDjango :: string where "ClientTypeDjango = ''django''"
definition ClientTypeNodejs :: string where "ClientTypeNodejs = ''nodejs''"
definition ClientTypeSpringBoot :: string where "ClientTypeSpringBoot = ''springBoot''"

definition VNetSolutionTypeServiceEndpoint :: string where
  "VNetSolutionTypeServiceEndpoint = ''serviceEndpoint''"
definition VNetSolutionTypePrivateLink :: string where
  "VNetSolutionTypePrivateLink = ''privateLink''"

text \<open>
  Modelled from the spec: the validators \<open>validation.StringIsNotEmpty\<close> and
  \<open>validation.StringInSlice(valid, ignoreCase)\<close> are not part of the sources at hand.
  The first accepts a string that is not empty. The second accepts a string that is one of
  \<open>valid\<close>; the comparison is case-sensitive unless \<open>ignoreCase\<close> is set, and then it
  compares the strings with their ASCII letters in lower case.
\<close>

definition to_lower :: "char \<Rightarrow> char" where
  "to_lower c =
     (let n = (of_char c :: nat) in if 65 \<le> n \<and> n \<le> 90 then char_of (n + 32) else c)"

definition EqualFold :: "string \<Rightarrow> string \<Rightarrow> bool" where
  "EqualFold s t = (map to_lower s = map to_lower t)"

definition StringIsNotEmpty :: "string \<Rightarrow> bool" where
  "StringIsNotEmpty v = (v \<noteq> [])"

definition StringInSlice :: "string list \<Rightarrow> bool \<Rightarrow> string \<Rightarrow> bool" where
  "StringInSlice valid ignoreCase v =
     list_ex (\<lambda>str. v = str \<or> (ignoreCase \<and> EqualFold v str)) valid"

text \<open>
  The schema that \<open>Arguments\<close> declares, as a map from the attribute name. The validators
  \<open>validate.AppServiceID\<close> and \<open>azure.ValidateResourceID\<close> and the schema
  \<open>authInfoSchema()\<close> are defined in other packages and files; they are parameters.
\<close>

definition Arguments ::
  "(string \<Rightarrow> bool) \<Rightarrow> (string \<Rightarrow> bool) \<Rightarrow> Schema \<Rightarrow> (string \<rightharpoonup> Schema)" where
  "Arguments AppServiceID ValidateResourceID authInfoSchema =
     [''name'' \<mapsto>
        \<lparr> schema_Type = TypeString, Required = True, Optional = False, ForceNew = True,
          Default = None, ValidateFunc = Some StringIsNotEmpty \<rparr>,
      ''app_service_id'' \<mapsto>
        \<lparr> schema_Type = TypeString, Required = True, Optional = False, ForceNew = True,
          Default = None, ValidateFunc = Some AppServiceID \<rparr>,
      ''target_resource_id'' \<mapsto>
        \<lparr> schema_Type = TypeString, Required = True, Optional = False, ForceNew = True,
          Default = None, ValidateFunc = Some ValidateResourceID \<rparr>,
      ''client_type'' \<mapsto>
        \<lparr> schema_Type = TypeString, Required = False, Optional = True, ForceNew = False,
          Default = Some ClientTypeNone,
          ValidateFunc = Some (StringInSlice
            [ClientTypeNone, ClientTypeDotnet, ClientTypeJava, ClientTypePython, ClientTypeGo,
             ClientTypePhp, ClientTypeRuby, ClientTypeDjango, ClientTypeNodejs,
             ClientTypeSpringBoot] False) \<rparr>,
      ''vnet_solution'' \<mapsto>
        \<lparr> schema_Type = TypeString, Required = False, Optional = True, ForceNew = False,
          Default = Some VNetSolutionTypePrivateLink,
          ValidateFunc = Some (StringInSlice
            [VNetSolutionTypeServiceEndpoint, VNetSolutionTypePrivateLink] False) \<rparr>,
      ''authentication'' \<mapsto> authInfoSchema]"

subsection \<open>An environment for evaluation\<close>

text \<open>
  A concrete environment, on which the resource functions can be evaluated: a configuration
  of one connection, a remote service where the linker does not exist yet (the lookup
  answers with status 404 and an error) and where every other call succeeds, and simple
  stand-ins for the ID functions and the expand and flatten helpers. A response is its
  status code (\<open>None\<close> for a nil response). \<open>example_resource\<close> is the request that
  \<open>Create\<close> builds from \<open>example_model\<close>.
\<close>

definition example_id :: ScopedLinkerId where
  "example_id = NewScopedLinkerID ''/sites/app1'' ''conn1''"

definition example_model :: "string AppServiceConnectorResourceModel" where
  "example_model =
     \<lparr> Name = ''conn1'', AppServiceId = ''/sites/app1'', TargetResourceId = ''/storageAccounts/st1'',
       ClientType = ''java'', AuthInfo = [''systemAssignedIdentity''],
       VnetSolution = ''serviceEndpoint'' \<rparr>"

definition example_environment ::
  "(string, string, unit, nat option, string) environment" where
  "example_environment =
     \<lparr> Decode = Inr example_model,
       ResourceData_Id = ''/sites/app1/linkers/conn1'',
       HasChange = (\<lambda>key. key = ''authentication''),
       MarkAsGone_result = (\<lambda>i. None),
       Encode_result = (\<lambda>state. None),
       scoped_ID = (\<lambda>i. ResourceUri i @ ''/linkers/'' @ LinkerName i),
       servicelinker_ParseScopedLinkerID =
         (\<lambda>s. if s = ''/sites/app1/linkers/conn1'' then Inr example_id else Inl ''parse''),
       links_ParseScopedLinkerID =
         (\<lambda>s. if s = ''/sites/app1/linkers/conn1'' then Inr example_id else Inl ''parse''),
       client_LinkerGet = (\<lambda>i. (\<lparr> HttpResponse = Some 404, Model = None \<rparr>, Some ''404'')),
       client_LinkerCreateOrUpdate = (\<lambda>i props. None),
       client_LinkerDelete = (\<lambda>i. (\<lparr> HttpResponse = Some 200 \<rparr>, None)),
       client_LinkerUpdate = (\<lambda>i props. None),
       WasNotFound = (\<lambda>r. r = Some 404),
       expandServiceConnectorAuthInfo = (\<lambda>ms. (Some (SdkAuthInfo (concat ms)), None)),
       flattenTargetService =
         (\<lambda>t. case t of Some (AzureResource (Some i)) \<Rightarrow> i | _ \<Rightarrow> []),
       flattenServiceConnectorAuthInfo =
         (\<lambda>a. case a of Some (SdkAuthInfo b) \<Rightarrow> [b] | Some (AuthInfoModels ms) \<Rightarrow> ms | None \<Rightarrow> []) \<rparr>"


definition example_resource :: "(string, string, unit) LinkerResource" where
  "example_resource =
     \<lparr> res_Id = Some ''/sites/app1/linkers/conn1'', res_Name = Some ''conn1'',
       res_Properties =
         \<lparr> props_AuthInfo = Some (SdkAuthInfo ''systemAssignedIdentity''),
           props_ClientType = Some ''java'',
           props_TargetService = Some (AzureResource (Some ''/storageAccounts/st1'')),
           props_VNetSolution = Some \<lparr> vnet_Type = Some ''serviceEndpoint'' \<rparr> \<rparr> \<rparr>"

section \<open>Properties of the splitting and of the matcher\<close>

lemma split_on_not_Nil: "split_on c s \<noteq> []"
  by (induction s) (auto split: list.splits)

lemma split_on_no_sep: "c \<notin> set a \<Longrightarrow> split_on c a = [a]"
  by (induction a) auto

lemma split_on_append_sep:
  "c \<notin> set a \<Longrightarrow> split_on c (a @ c # rest) = a # split_on c rest"
  by (induction a) auto

lemma split_on_snoc_sep: "split_on c (p @ [c]) = split_on c p @ [[]]"
  by (induction p) (auto split: list.splits simp: split_on_not_Nil)

lemma match_segments_length:
  "match_segments ts ss = Some r \<Longrightarrow> length ss = length ts"
  by (induction ts ss arbitrary: r rule: match_segments.induct) (auto split: if_splits)

lemma match_segments_static:
  "match_segments ts ss = Some r \<Longrightarrow> k < length ts \<Longrightarrow> ts ! k = Static key \<Longrightarrow> ss ! k = key"
proof (induction ts ss arbitrary: r k rule: match_segments.induct)
  case (2 k' ts s ss)
  then show ?case by (cases k) (auto split: if_splits)
next
  case (3 ts s ss)
  then show ?case by (cases k) (auto split: if_splits)
qed auto

lemma match_segments_last_value:
  "match_segments ts ss = Some r \<Longrightarrow> ts \<noteq> [] \<Longrightarrow> last ts = UserSpecified \<Longrightarrow> last ss \<noteq> []"
proof (induction ts ss arbitrary: r rule: match_segments.induct)
  case (2 k ts s ss)
  then show ?case by (cases ts; cases ss) (auto split: if_splits)
next
  case (3 ts s ss)
  then show ?case by (cases ts; cases ss) (auto split: if_splits)
qed auto

lemma MedTechServiceID_Inr_split:
  assumes "MedTechServiceID input = Inr v"
  obtains segs r where "split_on CHR ''/'' input = [] # segs"
    and "match_segments template segs = Some r"
  using assms unfolding MedTechServiceID_def
  by (auto split: list.splits if_splits option.splits)

lemma trailing_slash_rejected: "isl (MedTechServiceID (p @ ''/''))"
proof (rule ccontr)
  assume "\<not> isl (MedTechServiceID (p @ ''/''))"
  then obtain v where "MedTechServiceID (p @ ''/'') = Inr v"
    by (cases "MedTechServiceID (p @ ''/'')") auto
  then obtain segs r where s: "split_on CHR ''/'' (p @ ''/'') = [] # segs"
    and m: "match_segments template segs = Some r"
    by (rule MedTechServiceID_Inr_split)
  from m have len: "length segs = 10"
    by (auto dest: match_segments_length simp: template_def)
  from s have "last ([] # segs) = []"
    by (metis split_on_snoc_sep last_snoc)
  with len have "last segs = []" by (cases segs) auto
  moreover from m have "last segs \<noteq> []"
    by (rule match_segments_last_value) (simp_all add: template_def)
  ultimately show False by simp
qed

lemma ID_split:
  assumes "CHR ''/'' \<notin> set s" "CHR ''/'' \<notin> set g" "CHR ''/'' \<notin> set w" "CHR ''/'' \<notin> set i"
  shows "split_on CHR ''/'' (ID (NewMedTechServiceID s g w i)) =
     [[], ''subscriptions'', s, ''resourceGroups'', g, ''providers'',
      ''Microsoft.HealthcareApis'', ''workspaces'', w, ''iotconnectors'', i]"
proof -
  have a: "\<And>rest. split_on CHR ''/'' (s @ CHR ''/'' # rest) = s # split_on CHR ''/'' rest"
    using assms(1) by (rule split_on_append_sep)
  have b: "\<And>rest. split_on CHR ''/'' (g @ CHR ''/'' # rest) = g # split_on CHR ''/'' rest"
    using assms(2) by (rule split_on_append_sep)
  have c: "\<And>rest. split_on CHR ''/'' (w @ CHR ''/'' # rest) = w # split_on CHR ''/'' rest"
    using assms(3) by (rule split_on_append_sep)
  have d: "split_on CHR ''/'' i = [i]"
    using assms(4) by (rule split_on_no_sep)
  show ?thesis
    by (simp add: ID_def NewMedTechServiceID_def a b c d)
qed

section \<open>Claims about the MedTechService ID\<close>

text \<open>
  C1 (as amended). For a \<open>MedTechServiceId\<close> built by \<open>NewMedTechServiceID\<close> from four
  arguments that are not empty and contain no \<open>/\<close>, parsing the string returned by
  \<open>ID()\<close> with \<open>MedTechServiceID\<close> succeeds and yields a value whose four fields are the
  four arguments.
\<close>

theorem MedTechServiceID_roundtrip:
  assumes "subscriptionId \<noteq> []" "resourceGroup \<noteq> []" "workspaceName \<noteq> []" "iotconnectorName \<noteq> []"
    and "CHR ''/'' \<notin> set subscriptionId" "CHR ''/'' \<notin> set resourceGroup"
    and "CHR ''/'' \<notin> set workspaceName" "CHR ''/'' \<notin> set iotconnectorName"
  shows "\<exists>v. MedTechServiceID (ID (NewMedTechServiceID subscriptionId resourceGroup workspaceName iotconnectorName)) = Inr v
     \<and> SubscriptionId v = subscriptionId \<and> ResourceGroup v = resourceGroup
     \<and> WorkspaceName v = workspaceName \<and> IotconnectorName v = iotconnectorName"
  using assms by (simp add: MedTechServiceID_def ID_split template_def) (simp add: NewMedTechServiceID_def)

text \<open>The round trip at the values of the test.\<close>

theorem MedTechServiceID_roundtrip_witness:
  "MedTechServiceID (ID (NewMedTechServiceID ''12345678-1234-9876-4563-123456789012'' ''group1'' ''workspace1'' ''iotconnector1''))
     = Inr \<lparr> SubscriptionId = ''12345678-1234-9876-4563-123456789012'', ResourceGroup = ''group1'',
             WorkspaceName = ''workspace1'', IotconnectorName = ''iotconnector1'' \<rparr>"
  using MedTechServiceID_roundtrip [of "''12345678-1234-9876-4563-123456789012''" "''group1''" "''workspace1''" "''iotconnector1''"]
  by auto

text \<open>
  The round trip does not hold for every constructed value: a subscription ID that contains
  the separator is formatted into two segments, and the parser rejects the result.
\<close>

theorem MedTechServiceID_roundtrip_counterexample:
  "isl (MedTechServiceID (ID (NewMedTechServiceID ''sub/1'' ''group1'' ''workspace1'' ''iotconnector1'')))"
  by (simp add: MedTechServiceID_def ID_def NewMedTechServiceID_def template_def)

text \<open>
  C2. The parser compares the literal segments of the template case-sensitively: whenever
  the segment of the input at the place of one of the keys \<open>subscriptions\<close>,
  \<open>resourceGroups\<close>, \<open>providers\<close>, \<open>Microsoft.HealthcareApis\<close>, \<open>workspaces\<close>,
  \<open>iotconnectors\<close> is not that key exactly as written (so also when it differs from it
  only in case), the parser returns an error.
\<close>

theorem MedTechServiceID_literal_case_sensitive:
  assumes "split_on CHR ''/'' input = first # segs"
    and "(k, key) \<in> {(0, ''subscriptions''), (2, ''resourceGroups''), (4, ''providers''),
                       (5, ''Microsoft.HealthcareApis''), (6, ''workspaces''), (8, ''iotconnectors'')}"
    and "k < length segs" and "segs ! k \<noteq> key"
  shows "isl (MedTechServiceID input)"
proof (rule ccontr)
  assume "\<not> isl (MedTechServiceID input)"
  then obtain v where "MedTechServiceID input = Inr v"
    by (cases "MedTechServiceID input") auto
  then obtain segs' r where "split_on CHR ''/'' input = [] # segs'"
    and m: "match_segments template segs' = Some r"
    by (rule MedTechServiceID_Inr_split)
  with assms(1) have m': "match_segments template segs = Some r" by simp
  from assms(2) have "k < length template \<and> template ! k = Static key"
    by (auto simp: template_def)
  with m' have "segs ! k = key" by (blast dest: match_segments_static)
  with assms(4) show False by simp
qed

text \<open>The fully upper-cased form of the valid ID of the test is rejected.\<close>

theorem MedTechServiceID_literal_case_sensitive_witness:
  "isl (MedTechServiceID ''/SUBSCRIPTIONS/12345678-1234-9876-4563-123456789012/RESOURCEGROUPS/GROUP1/PROVIDERS/MICROSOFT.HEALTHCAREAPIS/WORKSPACES/WORKSPACE1/IOTCONNECTORS/IOTCONNECTOR1'')"
  by (rule MedTechServiceID_literal_case_sensitive [where k = 0 and key = "''subscriptions''"
        and first = "[]"
        and segs = "[''SUBSCRIPTIONS'', ''12345678-1234-9876-4563-123456789012'', ''RESOURCEGROUPS'',
                     ''GROUP1'', ''PROVIDERS'', ''MICROSOFT.HEALTHCAREAPIS'', ''WORKSPACES'',
                     ''WORKSPACE1'', ''IOTCONNECTORS'', ''IOTCONNECTOR1'']"]) simp_all

text \<open>
  C3. The parser rejects every prefix of the URI template that ends before a segment key or
  a segment value: the empty string, \<open>/\<close>, \<open>/subscriptions/\<close>, and each longer prefix
  up to the one that misses the value of \<open>IotconnectorName\<close>, whatever the values of the
  segments before.
\<close>

theorem MedTechServiceID_rejects_prefixes:
  "isl (MedTechServiceID '''')
   \<and> isl (MedTechServiceID ''/'')
   \<and> isl (MedTechServiceID ''/subscriptions/'')
   \<and> isl (MedTechServiceID (''/subscriptions/'' @ s @ ''/''))
   \<and> isl (MedTechServiceID (''/subscriptions/'' @ s @ ''/resourceGroups/''))
   \<and> isl (MedTechServiceID (''/subscriptions/'' @ s @ ''/resourceGroups/'' @ g @ ''/''))
   \<and> isl (MedTechServiceID (''/subscriptions/'' @ s @ ''/resourceGroups/'' @ g @ ''/providers/''))
   \<and> isl (MedTechServiceID (''/subscriptions/'' @ s @ ''/resourceGroups/'' @ g
            @ ''/providers/Microsoft.HealthcareApis/''))
   \<and> isl (MedTechServiceID (''/subscriptions/'' @ s @ ''/resourceGroups/'' @ g
            @ ''/providers/Microsoft.HealthcareApis/workspaces/''))
   \<and> isl (MedTechServiceID (''/subscriptions/'' @ s @ ''/resourceGroups/'' @ g
            @ ''/providers/Microsoft.HealthcareApis/workspaces/'' @ w @ ''/''))
   \<and> isl (MedTechServiceID (''/subscriptions/'' @ s @ ''/resourceGroups/'' @ g
            @ ''/providers/Microsoft.HealthcareApis/workspaces/'' @ w @ ''/iotconnectors/''))"
proof -
  have e: "isl (MedTechServiceID '''')"
    by (simp add: MedTechServiceID_def template_def)
  have p1: "isl (MedTechServiceID ''/'')"
    using trailing_slash_rejected [of "[]"] by simp
  have p2: "isl (MedTechServiceID ''/subscriptions/'')"
    using trailing_slash_rejected [of "''/subscriptions''"] by simp
  have p3: "isl (MedTechServiceID (''/subscriptions/'' @ s @ ''/''))"
    using trailing_slash_rejected [of "''/subscriptions/'' @ s"] by simp
  have p4: "isl (MedTechServiceID (''/subscriptions/'' @ s @ ''/resourceGroups/''))"
    using trailing_slash_rejected [of "''/subscriptions/'' @ s @ ''/resourceGroups''"] by simp
  have p5: "isl (MedTechServiceID (''/subscriptions/'' @ s @ ''/resourceGroups/'' @ g @ ''/''))"
    using trailing_slash_rejected [of "''/subscriptions/'' @ s @ ''/resourceGroups/'' @ g"] by simp
  have p6: "isl (MedTechServiceID (''/subscriptions/'' @ s @ ''/resourceGroups/'' @ g @ ''/providers/''))"
    using trailing_slash_rejected [of "''/subscriptions/'' @ s @ ''/resourceGroups/'' @ g @ ''/providers''"]
    by simp
  have p7: "isl (MedTechServiceID (''/subscriptions/'' @ s @ ''/resourceGroups/'' @ g
            @ ''/providers/Microsoft.HealthcareApis/''))"
    using trailing_slash_rejected [of "''/subscriptions/'' @ s @ ''/resourceGroups/'' @ g
            @ ''/providers/Microsoft.HealthcareApis''"]
    by simp
  have p8: "isl (MedTechServiceID (''/subscriptions/'' @ s @ ''/resourceGroups/'' @ g
            @ ''/providers/Microsoft.HealthcareApis/workspaces/''))"
    using trailing_slash_rejected [of "''/subscriptions/'' @ s @ ''/resourceGroups/'' @ g
            @ ''/providers/Microsoft.HealthcareApis/workspaces''"]
    by simp
  have p9: "isl (MedTechServiceID (''/subscriptions/'' @ s @ ''/resourceGroups/'' @ g
            @ ''/providers/Microsoft.HealthcareApis/workspaces/'' @ w @ ''/''))"
    using trailing_slash_rejected [of "''/subscriptions/'' @ s @ ''/resourceGroups/'' @ g
            @ ''/providers/Microsoft.HealthcareApis/workspaces/'' @ w"]
    by simp
  have p10: "isl (MedTechServiceID (''/subscriptions/'' @ s @ ''/resourceGroups/'' @ g
            @ ''/providers/Microsoft.HealthcareApis/workspaces/'' @ w @ ''/iotconnectors/''))"
    using trailing_slash_rejected [of "''/subscriptions/'' @ s @ ''/resourceGroups/'' @ g
            @ ''/providers/Microsoft.HealthcareApis/workspaces/'' @ w @ ''/iotconnectors''"]
    by simp
  from e p1 p2 p3 p4 p5 p6 p7 p8 p9 p10 show ?thesis by blast
qed

text \<open>
  C4. The formatter substitutes the four fields into the fixed URI template in order: for
  all field values the result is the template with the subscription ID, the resource group,
  the workspace name and the IoT connector name in their places, and for the values of the
  test it is the expected string.
\<close>

theorem ID_formatter:
  "ID (NewMedTechServiceID subscriptionId resourceGroup workspaceName iotconnectorName)
     = ''/subscriptions/'' @ subscriptionId @ ''/resourceGroups/'' @ resourceGroup
       @ ''/providers/Microsoft.HealthcareApis/workspaces/'' @ workspaceName
       @ ''/iotconnectors/'' @ iotconnectorName
   \<and> ID (NewMedTechServiceID ''12345678-1234-9876-4563-123456789012'' ''group1''
            ''workspace1'' ''iotconnector1'')
     = ''/subscriptions/12345678-1234-9876-4563-123456789012/resourceGroups/group1/providers/Microsoft.HealthcareApis/workspaces/workspace1/iotconnectors/iotconnector1''"
  by (simp add: ID_def NewMedTechServiceID_def)

section \<open>Claims about the App Service connection resource\<close>

lemmas example_defs =
  example_environment_def example_model_def example_id_def example_resource_def
  NewScopedLinkerID_def

text \<open>
  The request that \<open>Create\<close> sends. When the configuration decodes, the lookup reports
  not-found and the expansion of the authentication blocks succeeds, \<open>Create\<close> calls
  \<open>LinkerGet\<close> and then \<open>LinkerCreateOrUpdate\<close> with the request built from the
  configuration; it sets the resource ID when that call succeeds and returns the wrapped
  error when it fails.
\<close>

lemma Create_sends_request:
  assumes "Decode env = Inr model"
    and "id' = NewScopedLinkerID (AppServiceId model) (Name model)"
    and "client_LinkerGet env id' = (existing, err)"
    and "WasNotFound env (HttpResponse existing)"
    and "expandServiceConnectorAuthInfo env (AuthInfo model) = (authInfo, None)"
    and "props =
           \<lparr> res_Id = Some (scoped_ID env id'),
             res_Name = Some (Name model),
             res_Properties =
               \<lparr> props_AuthInfo = authInfo,
                 props_ClientType =
                   (if ClientType model \<noteq> [] then Some (ClientType model) else None),
                 props_TargetService = Some (AzureResource (Some (TargetResourceId model))),
                 props_VNetSolution =
                   (if VnetSolution model \<noteq> []
                    then Some \<lparr> vnet_Type = Some (VnetSolution model) \<rparr> else None) \<rparr> \<rparr>"
  shows "Create env =
           (case client_LinkerCreateOrUpdate env id' props of
              None \<Rightarrow> ([LinkerGet id', LinkerCreateOrUpdate id' props, SetID id'], None)
            | Some e \<Rightarrow>
                ([LinkerGet id', LinkerCreateOrUpdate id' props],
                 Some (Errorf ''creating %s: %+v'' (Some id') e)))"
  using assms unfolding Create_def
  by (simp add: Let_def split: option.splits)

text \<open>
  C5. \<open>Create\<close> maps the decoded configuration field by field onto the request. When the
  lookup reports not-found and the expansion of the authentication blocks succeeds,
  \<open>Create\<close> calls \<open>LinkerCreateOrUpdate\<close> with a \<open>LinkerResource\<close> that has \<open>Id\<close> equal
  to the ID string of the scoped linker ID built from \<open>app_service_id\<close> and \<open>name\<close>,
  \<open>Name\<close> equal to the configured name, \<open>TargetService.Id\<close> equal to
  \<open>target_resource_id\<close>, \<open>AuthInfo\<close> equal to the expansion of the authentication
  blocks, and \<open>ClientType\<close> (respectively \<open>VNetSolution.Type\<close>) set to the configured
  value exactly when \<open>client_type\<close> (respectively \<open>vnet_solution\<close>) is not empty, and
  unset otherwise; when that call succeeds \<open>Create\<close> sets the resource ID to the scoped
  linker ID and returns nil, and when it fails \<open>Create\<close> returns the wrapped error.
  Moreover every request that \<open>Create\<close> passes to \<open>LinkerCreateOrUpdate\<close> is mapped in
  this way, and whenever \<open>Create\<close> succeeds it has called \<open>LinkerGet\<close>, then
  \<open>LinkerCreateOrUpdate\<close>, then set the resource ID.
\<close>

theorem Create_maps_configuration:
  assumes "Decode env = Inr model"
    and "id' = NewScopedLinkerID (AppServiceId model) (Name model)"
  shows "(\<forall>existing err authInfo.
            client_LinkerGet env id' = (existing, err)
          \<and> WasNotFound env (HttpResponse existing)
          \<and> expandServiceConnectorAuthInfo env (AuthInfo model) = (authInfo, None) \<longrightarrow>
            (\<exists>props.
                res_Id props = Some (scoped_ID env id')
              \<and> res_Name props = Some (Name model)
              \<and> props_TargetService (res_Properties props)
                  = Some (AzureResource (Some (TargetResourceId model)))
              \<and> props_AuthInfo (res_Properties props) = authInfo
              \<and> props_ClientType (res_Properties props)
                  = (if ClientType model \<noteq> [] then Some (ClientType model) else None)
              \<and> props_VNetSolution (res_Properties props)
                  = (if VnetSolution model \<noteq> []
                     then Some \<lparr> vnet_Type = Some (VnetSolution model) \<rparr> else None)
              \<and> Create env =
                  (case client_LinkerCreateOrUpdate env id' props of
                     None \<Rightarrow> ([LinkerGet id', LinkerCreateOrUpdate id' props, SetID id'], None)
                   | Some e \<Rightarrow>
                       ([LinkerGet id', LinkerCreateOrUpdate id' props],
                        Some (Errorf ''creating %s: %+v'' (Some id') e)))))
       \<and> (\<forall>i props. LinkerCreateOrUpdate i props \<in> set (fst (Create env)) \<longrightarrow>
            i = id'
          \<and> res_Id props = Some (scoped_ID env id')
          \<and> res_Name props = Some (Name model)
          \<and> props_TargetService (res_Properties props)
              = Some (AzureResource (Some (TargetResourceId model)))
          \<and> props_AuthInfo (res_Properties props)
              = fst (expandServiceConnectorAuthInfo env (AuthInfo model))
          \<and> (ClientType model \<noteq> [] \<longrightarrow>
                props_ClientType (res_Properties props) = Some (ClientType model))
          \<and> (ClientType model = [] \<longrightarrow> props_ClientType (res_Properties props) = None)
          \<and> (VnetSolution model \<noteq> [] \<longrightarrow>
                props_VNetSolution (res_Properties props)
                  = Some \<lparr> vnet_Type = Some (VnetSolution model) \<rparr>)
          \<and> (VnetSolution model = [] \<longrightarrow> props_VNetSolution (res_Properties props) = None))
       \<and> (snd (Create env) = None \<longrightarrow>
            (\<exists>props. fst (Create env) = [LinkerGet id', LinkerCreateOrUpdate id' props, SetID id']))"
proof -
  have A: "(\<forall>existing err authInfo.
            client_LinkerGet env id' = (existing, err)
          \<and> WasNotFound env (HttpResponse existing)
          \<and> expandServiceConnectorAuthInfo env (AuthInfo model) = (authInfo, None) \<longrightarrow>
            (\<exists>props.
                res_Id props = Some (scoped_ID env id')
              \<and> res_Name props = Some (Name model)
              \<and> props_TargetService (res_Properties props)
                  = Some (AzureResource (Some (TargetResourceId model)))
              \<and> props_AuthInfo (res_Properties props) = authInfo
              \<and> props_ClientType (res_Properties props)
                  = (if ClientType model \<noteq> [] then Some (ClientType model) else None)
              \<and> props_VNetSolution (res_Properties props)
                  = (if VnetSolution model \<noteq> []
                     then Some \<lparr> vnet_Type = Some (VnetSolution model) \<rparr> else None)
              \<and> Create env =
                  (case client_LinkerCreateOrUpdate env id' props of
                     None \<Rightarrow> ([LinkerGet id', LinkerCreateOrUpdate id' props, SetID id'], None)
                   | Some e \<Rightarrow>
                       ([LinkerGet id', LinkerCreateOrUpdate id' props],
                        Some (Errorf ''creating %s: %+v'' (Some id') e)))))"
  proof (intro allI impI)
    fix existing err authInfo
    assume h: "client_LinkerGet env id' = (existing, err)
            \<and> WasNotFound env (HttpResponse existing)
            \<and> expandServiceConnectorAuthInfo env (AuthInfo model) = (authInfo, None)"
    let ?props =
      "\<lparr> res_Id = Some (scoped_ID env id'),
         res_Name = Some (Name model),
         res_Properties =
           \<lparr> props_AuthInfo = authInfo,
             props_ClientType =
               (if ClientType model \<noteq> [] then Some (ClientType model) else None),
             props_TargetService = Some (AzureResource (Some (TargetResourceId model))),
             props_VNetSolution =
               (if VnetSolution model \<noteq> []
                then Some \<lparr> vnet_Type = Some (VnetSolution model) \<rparr> else None) \<rparr> \<rparr>"
    from h have g: "client_LinkerGet env id' = (existing, err)"
      and w: "WasNotFound env (HttpResponse existing)"
      and x: "expandServiceConnectorAuthInfo env (AuthInfo model) = (authInfo, None)"
      by simp_all
    have c: "Create env =
       (case client_LinkerCreateOrUpdate env id' ?props of
          None \<Rightarrow> ([LinkerGet id', LinkerCreateOrUpdate id' ?props, SetID id'], None)
        | Some e \<Rightarrow>
            ([LinkerGet id', LinkerCreateOrUpdate id' ?props],
             Some (Errorf ''creating %s: %+v'' (Some id') e)))"
      by (rule Create_sends_request [OF assms g w x refl])
    show "\<exists>props.
            res_Id props = Some (scoped_ID env id')
          \<and> res_Name props = Some (Name model)
          \<and> props_TargetService (res_Properties props)
              = Some (AzureResource (Some (TargetResourceId model)))
          \<and> props_AuthInfo (res_Properties props) = authInfo
          \<and> props_ClientType (res_Properties props)
              = (if ClientType model \<noteq> [] then Some (ClientType model) else None)
          \<and> props_VNetSolution (res_Properties props)
              = (if VnetSolution model \<noteq> []
                 then Some \<lparr> vnet_Type = Some (VnetSolution model) \<rparr> else None)
          \<and> Create env =
              (case client_LinkerCreateOrUpdate env id' props of
                 None \<Rightarrow> ([LinkerGet id', LinkerCreateOrUpdate id' props, SetID id'], None)
               | Some e \<Rightarrow>
                   ([LinkerGet id', LinkerCreateOrUpdate id' props],
                    Some (Errorf ''creating %s: %+v'' (Some id') e)))"
      by (rule exI [of _ ?props]) (simp add: c)
  qed
  have B: "(\<forall>i props. LinkerCreateOrUpdate i props \<in> set (fst (Create env)) \<longrightarrow>
            i = id'
          \<and> res_Id props = Some (scoped_ID env id')
          \<and> res_Name props = Some (Name model)
          \<and> props_TargetService (res_Properties props)
              = Some (AzureResource (Some (TargetResourceId model)))
          \<and> props_AuthInfo (res_Properties props)
              = fst (expandServiceConnectorAuthInfo env (AuthInfo model))
          \<and> (ClientType model \<noteq> [] \<longrightarrow>
                props_ClientType (res_Properties props) = Some (ClientType model))
          \<and> (ClientType model = [] \<longrightarrow> props_ClientType (res_Properties props) = None)
          \<and> (VnetSolution model \<noteq> [] \<longrightarrow>
                props_VNetSolution (res_Properties props)
                  = Some \<lparr> vnet_Type = Some (VnetSolution model) \<rparr>)
          \<and> (VnetSolution model = [] \<longrightarrow> props_VNetSolution (res_Properties props) = None))"
    using assms unfolding Create_def
    by (auto simp: Let_def split: prod.splits option.splits if_splits)
  have C: "(snd (Create env) = None \<longrightarrow>
            (\<exists>props. fst (Create env) = [LinkerGet id', LinkerCreateOrUpdate id' props, SetID id']))"
    using assms unfolding Create_def
    by (auto simp: Let_def split: prod.splits option.splits if_splits)
  show ?thesis by (rule conjI [OF A conjI [OF B C]])
qed

text \<open>
  The mapping on the example configuration: the lookup reports not-found, the expansion
  succeeds, and \<open>Create\<close> sends \<open>example_resource\<close> and sets the resource ID.
\<close>

theorem Create_maps_configuration_witness:
  "Decode example_environment = Inr example_model
   \<and> WasNotFound example_environment
        (HttpResponse (fst (client_LinkerGet example_environment example_id)))
   \<and> expandServiceConnectorAuthInfo example_environment (AuthInfo example_model)
       = (Some (SdkAuthInfo ''systemAssignedIdentity''), None)
   \<and> Create example_environment
       = ([LinkerGet example_id, LinkerCreateOrUpdate example_id example_resource, SetID example_id],
          None)
   \<and> res_Id example_resource = Some (scoped_ID example_environment example_id)
   \<and> props_ClientType (res_Properties example_resource) = Some ''java''
   \<and> props_VNetSolution (res_Properties example_resource)
       = Some \<lparr> vnet_Type = Some ''serviceEndpoint'' \<rparr>"
proof -
  have d: "Decode example_environment = Inr example_model"
    by (simp add: example_environment_def)
  have i: "example_id = NewScopedLinkerID (AppServiceId example_model) (Name example_model)"
    by (simp add: example_id_def example_model_def)
  have g: "client_LinkerGet example_environment example_id
      = (fst (client_LinkerGet example_environment example_id),
         snd (client_LinkerGet example_environment example_id))"
    by simp
  have w: "WasNotFound example_environment
        (HttpResponse (fst (client_LinkerGet example_environment example_id)))"
    by (simp add: example_environment_def)
  have x: "expandServiceConnectorAuthInfo example_environment (AuthInfo example_model)
       = (Some (SdkAuthInfo ''systemAssignedIdentity''), None)"
    by (simp add: example_environment_def example_model_def)
  from Create_maps_configuration [OF d i, THEN conjunct1, rule_format, OF conjI [OF g conjI [OF w x]]]
  obtain props where p1: "res_Id props = Some (scoped_ID example_environment example_id)"
    and p2: "res_Name props = Some (Name example_model)"
    and p3: "props_TargetService (res_Properties props)
        = Some (AzureResource (Some (TargetResourceId example_model)))"
    and p4: "props_AuthInfo (res_Properties props) = Some (SdkAuthInfo ''systemAssignedIdentity'')"
    and p5: "props_ClientType (res_Properties props)
        = (if ClientType example_model \<noteq> [] then Some (ClientType example_model) else None)"
    and p6: "props_VNetSolution (res_Properties props)
        = (if VnetSolution example_model \<noteq> []
           then Some \<lparr> vnet_Type = Some (VnetSolution example_model) \<rparr> else None)"
    and p7: "Create example_environment =
        (case client_LinkerCreateOrUpdate example_environment example_id props of
           None \<Rightarrow> ([LinkerGet example_id, LinkerCreateOrUpdate example_id props, SetID example_id],
                    None)
         | Some e \<Rightarrow>
             ([LinkerGet example_id, LinkerCreateOrUpdate example_id props],
              Some (Errorf ''creating %s: %+v'' (Some example_id) e)))"
    by (elim exE conjE)
  from p1 p2 p3 p4 p5 p6 have e: "props = example_resource"
    by (cases props, cases "res_Properties props") (simp add: example_defs)
  have n: "client_LinkerCreateOrUpdate example_environment example_id example_resource = None"
    by (simp add: example_environment_def)
  from p7 e n have c: "Create example_environment
       = ([LinkerGet example_id, LinkerCreateOrUpdate example_id example_resource, SetID example_id],
          None)"
    by simp
  from p1 e have r: "res_Id example_resource = Some (scoped_ID example_environment example_id)"
    by simp
  from p5 e have t: "props_ClientType (res_Properties example_resource) = Some ''java''"
    by (simp add: example_model_def)
  from p6 e have v: "props_VNetSolution (res_Properties example_resource)
       = Some \<lparr> vnet_Type = Some ''serviceEndpoint'' \<rparr>"
    by (simp add: example_model_def)
  show ?thesis by (intro conjI d w x c r t v)
qed

text \<open>
  C9. \<open>Create\<close> does not overwrite an existing remote resource: when the response of the
  initial \<open>LinkerGet\<close> is not a not-found response, \<open>Create\<close> makes no other call and
  returns an error, the requires-import error when the lookup returned no error and the
  wrapped lookup error otherwise. \<open>LinkerCreateOrUpdate\<close> is called, and the resource ID
  is set, only when the lookup reported not-found.
\<close>

theorem Create_guarded_by_existence_check:
  assumes "Decode env = Inr model"
    and "id' = NewScopedLinkerID (AppServiceId model) (Name model)"
    and "client_LinkerGet env id' = (existing, err)"
  shows "(\<not> WasNotFound env (HttpResponse existing) \<longrightarrow>
            fst (Create env) = [LinkerGet id']
          \<and> (err = None \<longrightarrow>
                snd (Create env) = Some (ResourceRequiresImport ResourceType id'))
          \<and> (\<forall>e. err = Some e \<longrightarrow>
                snd (Create env)
                  = Some (Errorf ''checking for presence of existing %s: %+v'' (Some id') e)))
       \<and> (\<forall>i props. LinkerCreateOrUpdate i props \<in> set (fst (Create env)) \<longrightarrow>
             WasNotFound env (HttpResponse existing))
       \<and> (\<forall>i. SetID i \<in> set (fst (Create env)) \<longrightarrow> WasNotFound env (HttpResponse existing))"
  using assms unfolding Create_def
  by (auto simp: Let_def split: prod.splits option.splits if_splits)

text \<open>
  An existing linker (status 200) makes \<open>Create\<close> stop with the requires-import error; in
  the example environment the lookup reports not-found and the request is sent.
\<close>

theorem Create_guarded_by_existence_check_witness:
  "snd (Create (example_environment
      \<lparr>client_LinkerGet := \<lambda>i. (\<lparr> HttpResponse = Some 200, Model = Some example_resource \<rparr>, None)\<rparr>))
     = Some (ResourceRequiresImport ''azurerm_app_service_connection'' example_id)
   \<and> fst (Create (example_environment
      \<lparr>client_LinkerGet := \<lambda>i. (\<lparr> HttpResponse = Some 200, Model = Some example_resource \<rparr>, None)\<rparr>))
     = [LinkerGet example_id]
   \<and> LinkerCreateOrUpdate example_id example_resource \<in> set (fst (Create example_environment))
   \<and> WasNotFound example_environment
        (HttpResponse (fst (client_LinkerGet example_environment example_id)))"
proof -
  let ?resp = "\<lparr> HttpResponse = Some (200::nat), Model = Some example_resource \<rparr>"
  let ?found = "example_environment \<lparr>client_LinkerGet := \<lambda>i. (?resp, None)\<rparr>"
  have i: "example_id = NewScopedLinkerID (AppServiceId example_model) (Name example_model)"
    by (simp add: example_id_def example_model_def)
  have d: "Decode example_environment = Inr example_model"
    by (simp add: example_environment_def)
  have d': "Decode ?found = Inr example_model"
    by (simp add: example_environment_def)
  have g': "client_LinkerGet ?found example_id = (?resp, None)"
    by simp
  have n: "\<not> WasNotFound ?found (HttpResponse ?resp)"
    by (simp add: example_environment_def)
  note f = Create_guarded_by_existence_check [OF d' i g', THEN conjunct1, rule_format, OF n]
  from f have a1: "fst (Create ?found) = [LinkerGet example_id]"
    by (elim conjE)
  from f have a2: "snd (Create ?found)
      = Some (ResourceRequiresImport ''azurerm_app_service_connection'' example_id)"
    by (simp add: ResourceType_def)
  have c: "LinkerCreateOrUpdate example_id example_resource \<in> set (fst (Create example_environment))"
    by (simp add: Create_def Let_def example_defs)
  have g: "client_LinkerGet example_environment example_id
      = (fst (client_LinkerGet example_environment example_id),
         snd (client_LinkerGet example_environment example_id))"
    by simp
  have w: "WasNotFound example_environment
        (HttpResponse (fst (client_LinkerGet example_environment example_id)))"
    by (rule Create_guarded_by_existence_check
          [OF d i g, THEN conjunct2, THEN conjunct1, rule_format, OF c])
  show ?thesis by (intro conjI a2 a1 c w)
qed


text \<open>
  C7. \<open>Read\<close> maps the response onto the state: when the stored ID parses, \<open>LinkerGet\<close>
  succeeds and the model of the response and its \<open>AuthInfo\<close> and \<open>TargetService\<close> are
  not nil, \<open>Read\<close> encodes a state whose \<open>Name\<close> and \<open>AppServiceId\<close> are the
  \<open>LinkerName\<close> and the \<open>ResourceUri\<close> of the parsed ID, whose \<open>TargetResourceId\<close> and
  \<open>AuthInfo\<close> are the flattened \<open>TargetService\<close> and \<open>AuthInfo\<close>, and whose
  \<open>ClientType\<close> (respectively \<open>VnetSolution\<close>) is the value of the response when the
  response carries one (respectively a \<open>VNetSolution\<close> with a \<open>Type\<close>) and the empty
  string otherwise.
\<close>

theorem Read_maps_response:
  assumes "servicelinker_ParseScopedLinkerID env (ResourceData_Id env) = Inr id'"
    and "client_LinkerGet env id' = (resp, None)"
    and "Model resp = Some model"
    and "props_AuthInfo (res_Properties model) \<noteq> None"
    and "props_TargetService (res_Properties model) \<noteq> None"
  shows "\<exists>state.
           Read env = ([LinkerGet id', Encode state], map_option Returned (Encode_result env state))
         \<and> Name state = LinkerName id'
         \<and> AppServiceId state = ResourceUri id'
         \<and> TargetResourceId state
             = flattenTargetService env (props_TargetService (res_Properties model))
         \<and> AuthInfo state
             = flattenServiceConnectorAuthInfo env (props_AuthInfo (res_Properties model))
         \<and> ClientType state
             = (case props_ClientType (res_Properties model) of
                  Some clientType \<Rightarrow> clientType | None \<Rightarrow> [])
         \<and> VnetSolution state
             = (case props_VNetSolution (res_Properties model) of
                  Some vNetSolution \<Rightarrow>
                    (case vnet_Type vNetSolution of Some t \<Rightarrow> t | None \<Rightarrow> [])
                | None \<Rightarrow> [])"
  using assms unfolding Read_def
  by (auto simp: Let_def split: option.splits)

text \<open>Reading back the resource that \<open>Create\<close> sent gives the example configuration.\<close>

theorem Read_maps_response_witness:
  "Read (example_environment
      \<lparr>client_LinkerGet := \<lambda>i. (\<lparr> HttpResponse = Some 200, Model = Some example_resource \<rparr>, None)\<rparr>)
     = ([LinkerGet example_id, Encode example_model], None)"
proof -
  let ?resp = "\<lparr> HttpResponse = Some (200::nat), Model = Some example_resource \<rparr>"
  let ?env = "example_environment \<lparr>client_LinkerGet := \<lambda>i. (?resp, None)\<rparr>"
  have p: "servicelinker_ParseScopedLinkerID ?env (ResourceData_Id ?env) = Inr example_id"
    by (simp add: example_environment_def)
  have g: "client_LinkerGet ?env example_id = (?resp, None)"
    by simp
  have m: "Model ?resp = Some example_resource"
    by simp
  have a: "props_AuthInfo (res_Properties example_resource) \<noteq> None"
    by (simp add: example_resource_def)
  have t: "props_TargetService (res_Properties example_resource) \<noteq> None"
    by (simp add: example_resource_def)
  from Read_maps_response [OF p g m a t]
  obtain state where r: "Read ?env = ([LinkerGet example_id, Encode state],
        map_option Returned (Encode_result ?env state))"
    and "Name state = LinkerName example_id"
    and "AppServiceId state = ResourceUri example_id"
    and "TargetResourceId state
           = flattenTargetService ?env (props_TargetService (res_Properties example_resource))"
    and "AuthInfo state
           = flattenServiceConnectorAuthInfo ?env (props_AuthInfo (res_Properties example_resource))"
    and "ClientType state
           = (case props_ClientType (res_Properties example_resource) of
                Some clientType \<Rightarrow> clientType | None \<Rightarrow> [])"
    and "VnetSolution state
           = (case props_VNetSolution (res_Properties example_resource) of
                Some vNetSolution \<Rightarrow>
                  (case vnet_Type vNetSolution of Some t \<Rightarrow> t | None \<Rightarrow> [])
              | None \<Rightarrow> [])"
    by (elim exE conjE)
  then have "state = example_model"
    by (simp add: example_defs)
  with r show ?thesis
    by (simp add: example_environment_def)
qed

text \<open>
  C10. \<open>Delete\<close> treats an absent remote resource as deleted: it returns the parse error
  unchanged when the stored ID does not parse; otherwise it calls \<open>LinkerDelete\<close> and
  returns nil when the call fails with a not-found response (and when it does not fail),
  and the wrapped error when the call fails with another response. It returns a wrapped
  error in no other case.
\<close>

theorem Delete_tolerates_absent_resource:
  "(links_ParseScopedLinkerID env (ResourceData_Id env) = Inl parseError \<longrightarrow>
      Delete env = ([], Some (Returned parseError)))
   \<and> (links_ParseScopedLinkerID env (ResourceData_Id env) = Inr id'
        \<and> client_LinkerDelete env id' = (resp, err) \<longrightarrow>
        fst (Delete env) = [LoggerInfof ''deleting %s'' id', LinkerDelete id']
      \<and> (err \<noteq> None \<and> WasNotFound env (HttpResponse resp) \<longrightarrow> snd (Delete env) = None)
      \<and> (err = None \<longrightarrow> snd (Delete env) = None)
      \<and> (\<forall>e. err = Some e \<and> \<not> WasNotFound env (HttpResponse resp) \<longrightarrow>
            snd (Delete env) = Some (Errorf ''deleting %s: %+v'' (Some id') e)))
   \<and> (\<forall>format i e. snd (Delete env) = Some (Errorf format i e) \<longrightarrow>
        (\<exists>j r. links_ParseScopedLinkerID env (ResourceData_Id env) = Inr j
             \<and> client_LinkerDelete env j = (r, Some e)
             \<and> \<not> WasNotFound env (HttpResponse r)))"
  unfolding Delete_def
  by (auto simp: Let_def split: sum.splits prod.splits if_splits)

text \<open>
  A delete that fails with status 404 succeeds, one that fails with status 500 returns the
  wrapped error, and a stored ID that does not parse returns the parse error.
\<close>

theorem Delete_tolerates_absent_resource_witness:
  "snd (Delete (example_environment
      \<lparr>client_LinkerDelete := \<lambda>i. (\<lparr> HttpResponse = Some 404 \<rparr>, Some ''404'')\<rparr>)) = None
   \<and> snd (Delete (example_environment
      \<lparr>client_LinkerDelete := \<lambda>i. (\<lparr> HttpResponse = Some 500 \<rparr>, Some ''500'')\<rparr>))
       = Some (Errorf ''deleting %s: %+v'' (Some example_id) ''500'')
   \<and> Delete (example_environment \<lparr>ResourceData_Id := ''conn1''\<rparr>) = ([], Some (Returned ''parse''))"
proof -
  let ?gone = "example_environment
      \<lparr>client_LinkerDelete := \<lambda>i. (\<lparr> HttpResponse = Some (404::nat) \<rparr>, Some ''404'')\<rparr>"
  let ?failed = "example_environment
      \<lparr>client_LinkerDelete := \<lambda>i. (\<lparr> HttpResponse = Some (500::nat) \<rparr>, Some ''500'')\<rparr>"
  let ?unparsed = "example_environment \<lparr>ResourceData_Id := ''conn1''\<rparr>"
  have a: "snd (Delete ?gone) = None"
    using Delete_tolerates_absent_resource
      [of ?gone "''parse''" example_id "\<lparr> HttpResponse = Some 404 \<rparr>" "Some ''404''"]
    by (simp add: example_environment_def)
  have b: "snd (Delete ?failed) = Some (Errorf ''deleting %s: %+v'' (Some example_id) ''500'')"
    using Delete_tolerates_absent_resource
      [of ?failed "''parse''" example_id "\<lparr> HttpResponse = Some 500 \<rparr>" "Some ''500''"]
    by (simp add: example_environment_def)
  have c: "Delete ?unparsed = ([], Some (Returned ''parse''))"
    using Delete_tolerates_absent_resource
      [of ?unparsed "''parse''" example_id "\<lparr> HttpResponse = Some 500 \<rparr>" "Some ''500''"]
    by (simp add: example_environment_def)
  show ?thesis by (intro conjI a b c)
qed

text \<open>
  What \<open>Update\<close> sends: when the stored ID parses and the configuration decodes, the patch
  carries the configured \<open>client_type\<close> and \<open>vnet_solution\<close> when they have changed,
  and, when \<open>authentication\<close> has changed, the slice of configuration blocks as it is;
  \<open>expandServiceConnectorAuthInfo\<close> is not applied.
\<close>

lemma Update_patch:
  assumes "links_ParseScopedLinkerID env (ResourceData_Id env) = Inr id'"
    and "Decode env = Inr state"
  shows "\<exists>linkerProps.
           fst (Update env) = [LinkerUpdate id' \<lparr> patch_Properties = Some linkerProps \<rparr>]
         \<and> props_ClientType linkerProps
             = (if HasChange env ''client_type'' then Some (ClientType state) else None)
         \<and> props_VNetSolution linkerProps
             = (if HasChange env ''vnet_solution''
                then Some \<lparr> vnet_Type = Some (VnetSolution state) \<rparr> else None)
         \<and> props_AuthInfo linkerProps
             = (if HasChange env ''authentication''
                then Some (AuthInfoModels (AuthInfo state)) else None)
         \<and> props_TargetService linkerProps = None"
  using assms unfolding Update_def
  by (simp add: Let_def split: option.splits)

text \<open>
  C6. The specification has \<open>Update\<close> place the expanded authentication configuration in
  the patch when \<open>authentication\<close> has changed, as \<open>Create\<close> does in its request. The
  code does not: on the example environment, where \<open>authentication\<close> has changed, the
  patch that \<open>Update\<close> sends holds the slice of configuration blocks itself, while the
  expansion of these blocks, which \<open>Create\<close> sends for the same configuration, is another
  value.
\<close>

theorem Update_sends_unexpanded_authentication:
  "HasChange example_environment ''authentication''
   \<and> Update example_environment
       = ([LinkerUpdate example_id
             \<lparr> patch_Properties = Some
                 \<lparr> props_AuthInfo = Some (AuthInfoModels [''systemAssignedIdentity'']),
                   props_ClientType = None, props_TargetService = None,
                   props_VNetSolution = None \<rparr> \<rparr>],
          None)
   \<and> expandServiceConnectorAuthInfo example_environment [''systemAssignedIdentity'']
       = (Some (SdkAuthInfo ''systemAssignedIdentity''), None)
   \<and> Create example_environment
       = ([LinkerGet example_id, LinkerCreateOrUpdate example_id example_resource, SetID example_id],
          None)
   \<and> props_AuthInfo (res_Properties example_resource)
       = Some (SdkAuthInfo ''systemAssignedIdentity'')"
proof -
  have h: "HasChange example_environment ''authentication''"
    by (simp add: example_environment_def)
  have u: "Update example_environment
       = ([LinkerUpdate example_id
             \<lparr> patch_Properties = Some
                 \<lparr> props_AuthInfo = Some (AuthInfoModels [''systemAssignedIdentity'']),
                   props_ClientType = None, props_TargetService = None,
                   props_VNetSolution = None \<rparr> \<rparr>],
          None)"
    by (simp add: Update_def Let_def example_defs)
  have e: "expandServiceConnectorAuthInfo example_environment [''systemAssignedIdentity'']
       = (Some (SdkAuthInfo ''systemAssignedIdentity''), None)"
    by (simp add: example_environment_def)
  have c: "Create example_environment
       = ([LinkerGet example_id, LinkerCreateOrUpdate example_id example_resource, SetID example_id],
          None)"
    by (simp add: Create_def Let_def example_defs)
  have p: "props_AuthInfo (res_Properties example_resource)
       = Some (SdkAuthInfo ''systemAssignedIdentity'')"
    by (simp add: example_resource_def)
  show ?thesis by (intro conjI h u e c p)
qed

subsection \<open>The schema\<close>

lemmas ClientType_defs =
  ClientTypeNone_def ClientTypeDotnet_def ClientTypeJava_def ClientTypePython_def
  ClientTypeGo_def ClientTypePhp_def ClientTypeRuby_def ClientTypeDjango_def
  ClientTypeNodejs_def ClientTypeSpringBoot_def

lemmas VNetSolutionType_defs =
  VNetSolutionTypeServiceEndpoint_def VNetSolutionTypePrivateLink_def

lemma StringInSlice_case_sensitive: "StringInSlice valid False v = (v \<in> set valid)"
  by (induction valid) (auto simp: StringInSlice_def)

text \<open>
  C8. The declared schema: \<open>client_type\<close> is an optional string that accepts exactly the
  ten values none, dotnet, java, python, go, php, ruby, django, nodejs, springBoot, compared
  case-sensitively, and defaults to none; \<open>vnet_solution\<close> is an optional string that
  accepts exactly serviceEndpoint and privateLink and defaults to privateLink; \<open>name\<close>,
  \<open>app_service_id\<close> and \<open>target_resource_id\<close> are required, force a new resource when
  they change, and are validated as a non-empty string, by the App Service ID validator and
  by the Azure resource ID validator.
\<close>

theorem Arguments_validate_configuration:
  "(\<exists>s f. Arguments AppServiceID ValidateResourceID authInfoSchema ''client_type'' = Some s
        \<and> schema_Type s = TypeString \<and> Optional s \<and> \<not> Required s
        \<and> Default s = Some ''none''
        \<and> ValidateFunc s = Some f
        \<and> (\<forall>v. f v = (v \<in> {''none'', ''dotnet'', ''java'', ''python'', ''go'', ''php'',
                              ''ruby'', ''django'', ''nodejs'', ''springBoot''})))
   \<and> (\<exists>s f. Arguments AppServiceID ValidateResourceID authInfoSchema ''vnet_solution'' = Some s
        \<and> schema_Type s = TypeString \<and> Optional s \<and> \<not> Required s
        \<and> Default s = Some ''privateLink''
        \<and> ValidateFunc s = Some f
        \<and> (\<forall>v. f v = (v \<in> {''serviceEndpoint'', ''privateLink''})))
   \<and> (\<exists>s f. Arguments AppServiceID ValidateResourceID authInfoSchema ''name'' = Some s
        \<and> schema_Type s = TypeString \<and> Required s \<and> ForceNew s
        \<and> ValidateFunc s = Some f \<and> (\<forall>v. f v = (v \<noteq> [])))
   \<and> (\<exists>s. Arguments AppServiceID ValidateResourceID authInfoSchema ''app_service_id'' = Some s
        \<and> schema_Type s = TypeString \<and> Required s \<and> ForceNew s
        \<and> ValidateFunc s = Some AppServiceID)
   \<and> (\<exists>s. Arguments AppServiceID ValidateResourceID authInfoSchema ''target_resource_id'' = Some s
        \<and> schema_Type s = TypeString \<and> Required s \<and> ForceNew s
        \<and> ValidateFunc s = Some ValidateResourceID)"
proof (intro conjI)
  show "\<exists>s f. Arguments AppServiceID ValidateResourceID authInfoSchema ''client_type'' = Some s
        \<and> schema_Type s = TypeString \<and> Optional s \<and> \<not> Required s
        \<and> Default s = Some ''none''
        \<and> ValidateFunc s = Some f
        \<and> (\<forall>v. f v = (v \<in> {''none'', ''dotnet'', ''java'', ''python'', ''go'', ''php'',
                              ''ruby'', ''django'', ''nodejs'', ''springBoot''}))"
    by (simp add: Arguments_def StringInSlice_case_sensitive ClientType_defs)
  show "\<exists>s f. Arguments AppServiceID ValidateResourceID authInfoSchema ''vnet_solution'' = Some s
        \<and> schema_Type s = TypeString \<and> Optional s \<and> \<not> Required s
        \<and> Default s = Some ''privateLink''
        \<and> ValidateFunc s = Some f
        \<and> (\<forall>v. f v = (v \<in> {''serviceEndpoint'', ''privateLink''}))"
    by (simp add: Arguments_def StringInSlice_case_sensitive VNetSolutionType_defs)
  show "\<exists>s f. Arguments AppServiceID ValidateResourceID authInfoSchema ''name'' = Some s
        \<and> schema_Type s = TypeString \<and> Required s \<and> ForceNew s
        \<and> ValidateFunc s = Some f \<and> (\<forall>v. f v = (v \<noteq> []))"
    by (simp add: Arguments_def StringIsNotEmpty_def)
  show "\<exists>s. Arguments AppServiceID ValidateResourceID authInfoSchema ''app_service_id'' = Some s
        \<and> schema_Type s = TypeString \<and> Required s \<and> ForceNew s
        \<and> ValidateFunc s = Some AppServiceID"
    by (simp add: Arguments_def)
  show "\<exists>s. Arguments AppServiceID ValidateResourceID authInfoSchema ''target_resource_id'' = Some s
        \<and> schema_Type s = TypeString \<and> Required s \<and> ForceNew s
        \<and> ValidateFunc s = Some ValidateResourceID"
    by (simp add: Arguments_def)
qed

text \<open>
  On the schema of \<open>client_type\<close>: \<open>java\<close> is accepted, and \<open>Java\<close>, \<open>JAVA\<close> and the
  empty string are rejected.
\<close>

theorem Arguments_validate_configuration_witness:
  "\<exists>s f. Arguments (\<lambda>v. v \<noteq> []) (\<lambda>v. v \<noteq> [])
            \<lparr> schema_Type = TypeList, Required = True, Optional = False, ForceNew = False,
              Default = None, ValidateFunc = None \<rparr> ''client_type'' = Some s
        \<and> Default s = Some ''none''
        \<and> ValidateFunc s = Some f
        \<and> f ''java'' \<and> \<not> f ''Java'' \<and> \<not> f ''JAVA'' \<and> \<not> f []"
proof -
  let ?args = "Arguments (\<lambda>v. v \<noteq> []) (\<lambda>v. v \<noteq> [])
            \<lparr> schema_Type = TypeList, Required = True, Optional = False, ForceNew = False,
              Default = None, ValidateFunc = None \<rparr>"
  from Arguments_validate_configuration
    [of "\<lambda>v. v \<noteq> []" "\<lambda>v. v \<noteq> []"
        "\<lparr> schema_Type = TypeList, Required = True, Optional = False, ForceNew = False,
           Default = None, ValidateFunc = None \<rparr>", THEN conjunct1]
  obtain s f where a: "?args ''client_type'' = Some s"
    and d: "Default s = Some ''none''"
    and v: "ValidateFunc s = Some f"
    and m: "\<forall>v. f v = (v \<in> {''none'', ''dotnet'', ''java'', ''python'', ''go'', ''php'',
                              ''ruby'', ''django'', ''nodejs'', ''springBoot''})"
    by (elim exE conjE)
  from m have "f ''java''" "\<not> f ''Java''" "\<not> f ''JAVA''" "\<not> f []"
    by simp_all
  with a d v show ?thesis by (intro exI conjI)
qed

end
